theory Spec2Isabelle
  imports Main "HOL-Library.Word"
begin

section \<open>JavaScript values\<close>

text \<open>
  The dashboard is one script, kept in three versions: \<^verbatim>\<open>src/unnamed/part_001\<close> (total
  cholesterol, with the constants of the dev mode), \<^verbatim>\<open>src/script.js\<close> (an earlier version
  of it) and \<^verbatim>\<open>src/unnamed/part_000\<close> (the same for potassium). The theory follows
  \<^verbatim>\<open>part_001\<close>; \<open>getObservationDate\<close>, \<open>formatHumanName\<close>, \<open>capitalize\<close> and the
  fulfilment handler of the observation query read the same in \<^verbatim>\<open>script.js\<close>.

  The script is JavaScript: its inputs are the JSON resources a FHIR server returns and the
  values a rejected promise carries. A JavaScript string is a sequence of UTF-16 code
  units; \<open>substring\<close>, \<open>trim\<close> and \<open>includes\<close> work on code units. \<open>lit\<close> turns the
  ASCII text of a literal into code units.
\<close>

type_synonym jsstring = "16 word list"

definition lit :: "string \<Rightarrow> jsstring" where
  "lit s = map of_char s"

text \<open>
  A value of the language. A number is represented by the text that \<open>Number::toString\<close>
  gives for it (\<open>0\<close> for both zeros, \<open>NaN\<close> for not-a-number): the script reads of a
  number nothing but its type tag, its truthiness, whether it is zero and its text, and
  the text determines them all. An object is the list of its own properties in the order of
  the JSON text. \<open>Err name message\<close> is an instance of \<open>Error\<close>.
\<close>

datatype jsval =
    Undefined
  | Null
  | Bool bool
  | Num jsstring
  | Str jsstring
  | Arr "jsval list"
  | Obj "(jsstring \<times> jsval) list"
  | Err jsstring jsstring

definition and_then :: "'e + 'a \<Rightarrow> ('a \<Rightarrow> 'e + 'b) \<Rightarrow> 'e + 'b" where
  "and_then r f = (case r of Inl e \<Rightarrow> Inl e | Inr v \<Rightarrow> f v)"

fun truthy :: "jsval \<Rightarrow> bool" where
  "truthy Undefined = False"
| "truthy Null = False"
| "truthy (Bool b) = b"
| "truthy (Num t) = (t \<noteq> lit ''0'' \<and> t \<noteq> lit ''NaN'')"
| "truthy (Str s) = (s \<noteq> [])"
| "truthy (Arr xs) = True"
| "truthy (Obj kvs) = True"
| "truthy (Err n m) = True"

fun nullish :: "jsval \<Rightarrow> bool" where
  "nullish Undefined = True"
| "nullish Null = True"
| "nullish v = False"

fun typeof :: "jsval \<Rightarrow> jsstring" where
  "typeof Undefined = lit ''undefined''"
| "typeof Null = lit ''object''"
| "typeof (Bool b) = lit ''boolean''"
| "typeof (Num t) = lit ''number''"
| "typeof (Str s) = lit ''string''"
| "typeof (Arr xs) = lit ''object''"
| "typeof (Obj kvs) = lit ''object''"
| "typeof (Err n m) = lit ''object''"

fun join_strings :: "jsstring \<Rightarrow> jsstring list \<Rightarrow> jsstring" where
  "join_strings sep [] = []"
| "join_strings sep [x] = x"
| "join_strings sep (x # y # ys) = x @ sep @ join_strings sep (y # ys)"

text \<open>
  The errors the engine raises. The wording of their messages is V8's; other engines word
  them differently, and nothing below depends on the wording.
\<close>

definition type_error :: "jsstring \<Rightarrow> jsval" where
  "type_error msg = Err (lit ''TypeError'') msg"

definition not_a_function :: "string \<Rightarrow> jsval" where
  "not_a_function what = type_error (lit what @ lit '' is not a function'')"

text \<open>
  \<open>ToString\<close>, as string concatenation, template literals, \<open>String(v)\<close> and \<open>join\<close>
  apply it. It can throw. An object is converted through its \<open>toString\<close>: a parsed JSON
  object inherits the one of \<open>Object.prototype\<close>, which gives \<open>[object Object]\<close>,
  unless it has a property of that name of its own; the value of that property is not
  callable, \<open>valueOf\<close> gives nothing primitive either, and the conversion raises a
  TypeError. An array is joined with commas, from left to right, \<open>null\<close> and \<open>undefined\<close>
  elements giving the empty text. \<open>Error.prototype.toString\<close> gives the name, a colon and
  the message.
\<close>

fun to_string :: "jsval \<Rightarrow> jsval + jsstring"
  and elements_text :: "jsval list \<Rightarrow> jsval + jsstring list" where
  "to_string Undefined = Inr (lit ''undefined'')"
| "to_string Null = Inr (lit ''null'')"
| "to_string (Bool b) = Inr (if b then lit ''true'' else lit ''false'')"
| "to_string (Num t) = Inr t"
| "to_string (Str s) = Inr s"
| "to_string (Arr xs) =
     (case elements_text xs of Inl e \<Rightarrow> Inl e | Inr ts \<Rightarrow> Inr (join_strings (lit '','') ts))"
| "to_string (Obj kvs) =
     (if lit ''toString'' \<in> set (map fst kvs)
      then Inl (type_error (lit ''Cannot convert object to primitive value''))
      else Inr (lit ''[object Object]''))"
| "to_string (Err n m) =
     Inr (if n = [] then m else if m = [] then n else n @ lit '': '' @ m)"
| "elements_text [] = Inr []"
| "elements_text (x # xs) =
     (case (if nullish x then Inr [] else to_string x) of
        Inl e \<Rightarrow> Inl e
      | Inr t \<Rightarrow> (case elements_text xs of Inl e \<Rightarrow> Inl e | Inr ts \<Rightarrow> Inr (t # ts)))"

definition array_join :: "jsstring \<Rightarrow> jsval list \<Rightarrow> jsval + jsstring" where
  "array_join sep xs =
     (case elements_text xs of Inl e \<Rightarrow> Inl e | Inr ts \<Rightarrow> Inr (join_strings sep ts))"

text \<open>The decimal digits of a natural number, for the \<open>length\<close> of arrays and strings.\<close>

function decimal :: "nat \<Rightarrow> jsstring" where
  "decimal n = (if n < 10 then [48 + of_nat n] else decimal (n div 10) @ [48 + of_nat (n mod 10)])"
  by pat_completeness auto
termination
  by (relation "measure id") auto

declare decimal.simps [simp del]

text \<open>
  Reading a property. On \<open>null\<close> and \<open>undefined\<close> it raises a TypeError; on an object it
  gives the value of the property (of its last occurrence, as \<open>JSON.parse\<close> keeps it) or
  \<open>undefined\<close>; arrays and strings have a \<open>length\<close>. The script reads only properties
  that no prototype provides, \<open>length\<close> apart.
\<close>

fun get_prop :: "jsval \<Rightarrow> jsstring \<Rightarrow> jsval + jsval" where
  "get_prop Undefined k =
     Inl (type_error
       (lit ''Cannot read properties of undefined (reading '' @ [0x27] @ k @ [0x27] @ lit '')''))"
| "get_prop Null k =
     Inl (type_error
       (lit ''Cannot read properties of null (reading '' @ [0x27] @ k @ [0x27] @ lit '')''))"
| "get_prop (Obj kvs) k = Inr (case map_of (rev kvs) k of Some v \<Rightarrow> v | None \<Rightarrow> Undefined)"
| "get_prop (Arr xs) k = Inr (if k = lit ''length'' then Num (decimal (length xs)) else Undefined)"
| "get_prop (Str s) k = Inr (if k = lit ''length'' then Num (decimal (length s)) else Undefined)"
| "get_prop (Err n m) k =
     Inr (if k = lit ''message'' then Str m else if k = lit ''name'' then Str n else Undefined)"
| "get_prop (Bool b) k = Inr Undefined"
| "get_prop (Num t) k = Inr Undefined"

text \<open>Reading an element by index, \<open>v[i]\<close>.\<close>

fun get_index :: "jsval \<Rightarrow> nat \<Rightarrow> jsval + jsval" where
  "get_index (Arr xs) i = Inr (if i < length xs then xs ! i else Undefined)"
| "get_index (Str s) i = Inr (if i < length s then Str [s ! i] else Undefined)"
| "get_index v i = get_prop v (decimal i)"

text \<open>\<open>v === n\<close> for a number \<open>n\<close> given by its text (\<open>NaN\<close> equals nothing).\<close>

definition strict_equals_number :: "jsval \<Rightarrow> jsstring \<Rightarrow> bool" where
  "strict_equals_number v t = (case v of Num u \<Rightarrow> u = t \<and> u \<noteq> lit ''NaN'' | _ \<Rightarrow> False)"

subsection \<open>String methods\<close>

text \<open>\<open>s.includes(p)\<close>: \<open>p\<close> occurs in \<open>s\<close> as a run of consecutive code units.\<close>

fun str_includes :: "jsstring \<Rightarrow> jsstring \<Rightarrow> bool" where
  "str_includes [] p = (p = [])"
| "str_includes (c # cs) p = (take (length p) (c # cs) = p \<or> str_includes cs p)"

text \<open>\<open>s.substring(0, n)\<close>, callable on strings only.\<close>

definition substring0 :: "jsval \<Rightarrow> nat \<Rightarrow> string \<Rightarrow> jsval + jsstring" where
  "substring0 v n what =
     (case v of Str s \<Rightarrow> Inr (take n s) | _ \<Rightarrow> Inl (not_a_function (what @ ''.substring'')))"

text \<open>
  The code units \<open>trim\<close> strips: the WhiteSpace and LineTerminator productions of
  ECMAScript (tab, line feed, vertical tab, form feed, carriage return, space, no-break
  space, the Unicode space separators, line and paragraph separator, byte order mark).
\<close>

definition is_white_space :: "16 word \<Rightarrow> bool" where
  "is_white_space c =
     (c \<in> {0x9, 0xA, 0xB, 0xC, 0xD, 0x20, 0xA0, 0x1680, 0x2028, 0x2029, 0x202F, 0x205F,
            0x3000, 0xFEFF} \<or> (0x2000 \<le> c \<and> c \<le> 0x200A))"

definition trim :: "jsstring \<Rightarrow> jsstring" where
  "trim s = rev (dropWhile is_white_space (rev (dropWhile is_white_space s)))"

text \<open>\<open>a.join(sep)\<close>, callable on arrays only.\<close>

definition call_join :: "jsval \<Rightarrow> jsstring \<Rightarrow> string \<Rightarrow> jsval + jsstring" where
  "call_join v sep what =
     (case v of Arr xs \<Rightarrow> array_join sep xs | _ \<Rightarrow> Inl (not_a_function (what @ ''.join'')))"

section \<open>The helpers of the script\<close>

text \<open>
  \<^verbatim>\<open>function getObservationDate(obs) {
    if (obs.effectiveDateTime) { return obs.effectiveDateTime.substring(0, 10); }
    if (obs.issued) { return obs.issued.substring(0, 10); }
    return "";
  }\<close>
\<close>

definition getObservationDate :: "jsval \<Rightarrow> jsval + jsstring" where
  "getObservationDate obs =
     and_then (get_prop obs (lit ''effectiveDateTime'')) (\<lambda>effectiveDateTime.
       if truthy effectiveDateTime then substring0 effectiveDateTime 10 ''obs.effectiveDateTime''
       else and_then (get_prop obs (lit ''issued'')) (\<lambda>issued.
         if truthy issued then substring0 issued 10 ''obs.issued''
         else Inr (lit '''')))"

text \<open>
  \<^verbatim>\<open>function formatHumanName(name) {
    if (!name) return "(no name)";
    const given = (name.given || []).join(" ");
    const family = name.family || "";
    const full = (given + " " + family).trim();
    return full || "(no name)";
  }\<close>
\<close>

definition formatHumanName :: "jsval \<Rightarrow> jsval + jsstring" where
  "formatHumanName name =
     (if \<not> truthy name then Inr (lit ''(no name)'')
      else
        and_then (get_prop name (lit ''given'')) (\<lambda>g.
        and_then (call_join (if truthy g then g else Arr []) (lit '' '') ''(name.given || [])'') (\<lambda>given.
        and_then (get_prop name (lit ''family'')) (\<lambda>f.
          let family = (if truthy f then f else Str (lit '''')) in
        and_then (to_string family) (\<lambda>family_text.
          let full = trim (given @ lit '' '' @ family_text)
          in Inr (if full \<noteq> [] then full else lit ''(no name)''))))))"

text \<open>
  \<open>toUpperCase\<close> follows the Unicode case mappings, which are no part of the script: the
  functions that call it take it as the parameter \<open>toUpperCase\<close>.

  \<^verbatim>\<open>function capitalize(s) {
    if (!s) return "";
    return s.charAt(0).toUpperCase() + s.slice(1);
  }\<close>
\<close>

definition capitalize :: "(jsstring \<Rightarrow> jsstring) \<Rightarrow> jsval \<Rightarrow> jsval + jsstring" where
  "capitalize toUpperCase s =
     (if \<not> truthy s then Inr (lit '''')
      else case s of
          Str t \<Rightarrow> Inr (toUpperCase (take 1 t) @ drop 1 t)
        | _ \<Rightarrow> Inl (not_a_function ''s.charAt''))"

subsection \<open>\<open>encodeURIComponent\<close>\<close>

text \<open>
  Every code point outside the unreserved set is written as the percent-escaped bytes of
  its UTF-8 encoding; a surrogate code unit without its partner raises a URIError.
\<close>

definition uri_unreserved :: "16 word \<Rightarrow> bool" where
  "uri_unreserved c =
     ((0x41 \<le> c \<and> c \<le> 0x5A) \<or> (0x61 \<le> c \<and> c \<le> 0x7A) \<or> (0x30 \<le> c \<and> c \<le> 0x39) \<or>
      c \<in> {0x2D, 0x5F, 0x2E, 0x21, 0x7E, 0x2A, 0x27, 0x28, 0x29})"

definition hex_digit :: "nat \<Rightarrow> 16 word" where
  "hex_digit n = (if n < 10 then 48 + of_nat n else 55 + of_nat n)"

definition percent :: "nat \<Rightarrow> jsstring" where
  "percent b = [0x25, hex_digit (b div 16), hex_digit (b mod 16)]"

definition utf8 :: "nat \<Rightarrow> nat list" where
  "utf8 cp =
     (if cp < 0x80 then [cp]
      else if cp < 0x800 then [0xC0 + cp div 64, 0x80 + cp mod 64]
      else if cp < 0x10000 then [0xE0 + cp div 4096, 0x80 + cp div 64 mod 64, 0x80 + cp mod 64]
      else [0xF0 + cp div 262144, 0x80 + cp div 4096 mod 64, 0x80 + cp div 64 mod 64,
            0x80 + cp mod 64])"

definition uri_error :: jsval where
  "uri_error = Err (lit ''URIError'') (lit ''URI malformed'')"

definition escape :: "nat \<Rightarrow> jsstring" where
  "escape cp = concat (map percent (utf8 cp))"

fun encode_units :: "jsstring \<Rightarrow> jsval + jsstring" where
  "encode_units [] = Inr []"
| "encode_units (c # cs) =
     (if 0xDC00 \<le> c \<and> c \<le> 0xDFFF then Inl uri_error
      else if 0xD800 \<le> c \<and> c \<le> 0xDBFF then
        (case cs of
           [] \<Rightarrow> Inl uri_error
         | d # ds \<Rightarrow>
             if 0xDC00 \<le> d \<and> d \<le> 0xDFFF then
               and_then (encode_units ds) (\<lambda>rest.
                 Inr (escape (0x10000 + (unat c - 0xD800) * 0x400 + (unat d - 0xDC00)) @ rest))
             else Inl uri_error)
      else
        and_then (encode_units cs) (\<lambda>rest.
          Inr ((if uri_unreserved c then [c] else escape (unat c)) @ rest)))"

definition encodeURIComponent :: "jsval \<Rightarrow> jsval + jsstring" where
  "encodeURIComponent v = and_then (to_string v) encode_units"

section \<open>The page and the session\<close>

text \<open>
  The script writes to four regions of the page and asks the FHIR client for resources.
  The state records what the regions hold, the requests issued so far and the console,
  and, as a ghost field, the calls of the two loaders in the order they were made.
  A table cell is its \<open>colspan\<close> with the markup written between \<open><td>\<close> and \<open></td>\<close>;
  a row is the list of its cells. The patient panel is either a paragraph (class and text)
  or the description list of the patient grid (the \<open>dt\<close> and \<open>dd\<close> of each entry).
  The four regions are taken to exist in the page, and the client and the chart library
  to accept what the script hands them.
\<close>

datatype cell = Cell nat jsstring

datatype patient_panel =
    Paragraph jsstring jsstring
  | Grid "(jsstring \<times> jsstring) list"

text \<open>The options object handed to \<open>Highcharts.chart\<close>; a series is its name and data.\<close>

record chart_options =
  chart_type :: "jsstring option"
  title_text :: jsstring
  xAxis_categories :: "jsstring list"
  xAxis_title :: "jsstring option"
  yAxis_title :: "jsstring option"
  tooltip :: "(bool \<times> nat) option"
  series :: "(jsstring \<times> jsval list) list"
  credits_enabled :: bool

text \<open>
  What the script reads of a client of the launch library: \<open>client.state.serverUrl\<close>, and
  \<open>client.patient\<close> (absent, or its \<open>id\<close> and whether its \<open>read\<close> is a function).
\<close>

record patient_context =
  context_id :: jsval
  context_read :: bool

record client =
  state_serverUrl :: jsval
  client_patient :: "patient_context option"

record request_options =
  pageLimit :: nat
  flat :: bool

datatype request =
    Request client jsstring "request_options option"
  | PatientRead client

text \<open>A call of one of the two loaders, with its arguments.\<close>

datatype call =
    LoadPatient client jsval
  | LoadCholesterolLabs client jsval

record world =
  status_text :: jsstring
  patient_info :: patient_panel
  lab_table_body :: "cell list list"
  lab_chart :: "chart_options option"
  requests :: "request list"
  console :: "(jsstring \<times> jsval) list"
  calls :: "call list"

text \<open>
  A function of the script either returns or throws, and what it wrote before throwing
  stays written.
\<close>

datatype completion = Normal world | Throw jsval world

definition continue :: "completion \<Rightarrow> (world \<Rightarrow> completion) \<Rightarrow> completion" where
  "continue c f = (case c of Normal w \<Rightarrow> f w | Throw e w \<Rightarrow> Throw e w)"

text \<open>
  \<open>promise.then(on_fulfilled).catch(on_rejected)\<close>, once the promise has settled with
  \<open>outcome\<close>: the rejection handler also receives what the fulfilment handler throws.
\<close>

definition then_catch ::
  "jsval + 'a \<Rightarrow> ('a \<Rightarrow> world \<Rightarrow> completion) \<Rightarrow> (jsval \<Rightarrow> world \<Rightarrow> completion) \<Rightarrow>
     world \<Rightarrow> completion" where
  "then_catch outcome on_fulfilled on_rejected w =
     (case outcome of
        Inl err \<Rightarrow> on_rejected err w
      | Inr v \<Rightarrow>
          (case on_fulfilled v w of
             Normal w' \<Rightarrow> Normal w'
           | Throw err w' \<Rightarrow> on_rejected err w'))"

definition issue :: "request \<Rightarrow> world \<Rightarrow> world" where
  "issue r w = w\<lparr>requests := requests w @ [r]\<rparr>"

definition called :: "call \<Rightarrow> world \<Rightarrow> world" where
  "called c w = w\<lparr>calls := calls w @ [c]\<rparr>"

definition console_error :: "string \<Rightarrow> jsval \<Rightarrow> world \<Rightarrow> world" where
  "console_error label v w = w\<lparr>console := console w @ [(lit label, v)]\<rparr>"

section \<open>The chart\<close>

text \<open>
  \<open>renderChart(dates, values)\<close>. Both arguments are arrays at every call, so the guard
  \<^verbatim>\<open>!dates || dates.length === 0 || !values || values.length === 0\<close> asks whether one of
  them is empty.
\<close>

definition renderChart :: "jsstring list \<Rightarrow> jsval list \<Rightarrow> world \<Rightarrow> world" where
  "renderChart dates values w =
     (if dates = [] \<or> values = [] then
        w\<lparr>lab_chart := Some
          \<lparr>chart_type = None,
           title_text = lit ''No data to display'',
           xAxis_categories = [],
           xAxis_title = None,
           yAxis_title = None,
           tooltip = None,
           series = [],
           credits_enabled = False\<rparr>\<rparr>
      else
        w\<lparr>lab_chart := Some
          \<lparr>chart_type = Some (lit ''line''),
           title_text = lit ''Total Cholesterol Over Time'',
           xAxis_categories = dates,
           xAxis_title = Some (lit ''Date''),
           yAxis_title = Some (lit ''Cholesterol (e.g., mg/dL)''),
           tooltip = Some (True, 2),
           series = [(lit ''Total Cholesterol'', values)],
           credits_enabled = False\<rparr>\<rparr>)"

section \<open>The Patient Loader\<close>

text \<open>
  \<open>loadPatient(client, patientId)\<close> up to the request; the handlers of the promise
  follow.
\<close>

definition loadPatient :: "client \<Rightarrow> jsval \<Rightarrow> world \<Rightarrow> completion" where
  "loadPatient client patientId w0 =
     (let w = called (LoadPatient client patientId) w0 in
      if truthy patientId then
        (case encodeURIComponent patientId of
           Inl e \<Rightarrow> Throw e w
         | Inr p \<Rightarrow> Normal (issue (Request client (lit ''Patient/'' @ p) None) w))
      else if (case client_patient client of Some ctx \<Rightarrow> context_read ctx | None \<Rightarrow> False) then
        Normal (issue (PatientRead client) w)
      else
        Normal (w\<lparr>patient_info :=
          Paragraph (lit ''error'') (lit ''No patient context available.'')\<rparr>))"

text \<open>
  The four texts of the patient grid, in the order the handler computes them: the
  constants first, then the template literal, which converts \<open>name\<close>,
  \<open>capitalize(gender)\<close>, \<open>dob\<close> and \<open>id\<close> from left to right.
\<close>

definition patient_texts ::
  "(jsstring \<Rightarrow> jsstring) \<Rightarrow> jsval \<Rightarrow> jsval + (jsstring \<times> jsstring \<times> jsstring \<times> jsstring)" where
  "patient_texts toUpperCase patient =
     and_then (get_prop patient (lit ''name'')) (\<lambda>names.
     and_then (if truthy names then get_index names 0 else Inr names) (\<lambda>first.
     and_then (formatHumanName first) (\<lambda>name.
     and_then (get_prop patient (lit ''gender'')) (\<lambda>g.
     and_then (get_prop patient (lit ''birthDate'')) (\<lambda>b.
     and_then (get_prop patient (lit ''id'')) (\<lambda>i.
       let gender = (if truthy g then g else Str (lit ''unknown''));
           dob = (if truthy b then b else Str (lit ''unknown''));
           ident = (if truthy i then i else Str (lit ''(no id)''))
       in and_then (capitalize toUpperCase gender) (\<lambda>capitalized.
          and_then (to_string dob) (\<lambda>dob_text.
          and_then (to_string ident) (\<lambda>id_text.
            Inr (name, capitalized, dob_text, id_text))))))))))"

definition loadPatient_then :: "(jsstring \<Rightarrow> jsstring) \<Rightarrow> jsval \<Rightarrow> world \<Rightarrow> completion" where
  "loadPatient_then toUpperCase patient w =
     (case patient_texts toUpperCase patient of
        Inl e \<Rightarrow> Throw e w
      | Inr (name, gender, dob, ident) \<Rightarrow>
          Normal (w\<lparr>patient_info :=
            Grid [(lit ''Name'', name), (lit ''Gender'', gender),
                  (lit ''Date of Birth'', dob), (lit ''Patient ID'', ident)]\<rparr>))"

definition loadPatient_catch :: "jsval \<Rightarrow> world \<Rightarrow> completion" where
  "loadPatient_catch err w =
     Normal ((console_error ''Error loading patient:'' err w)\<lparr>patient_info :=
       Paragraph (lit ''error'') (lit ''Could not load patient details.'')\<rparr>)"

definition patient_settled ::
  "(jsstring \<Rightarrow> jsstring) \<Rightarrow> jsval + jsval \<Rightarrow> world \<Rightarrow> completion" where
  "patient_settled toUpperCase outcome =
     then_catch outcome (loadPatient_then toUpperCase) loadPatient_catch"

section \<open>The Lab Series Loader\<close>

text \<open>
  The body of the \<open>forEach\<close> callback, first the constants it computes:
  \<^verbatim>\<open>const date = getObservationDate(obs);
  const valueQuantity = obs.valueQuantity || {};
  const value = valueQuantity.value;
  const unit = valueQuantity.unit || valueQuantity.code || "";
  const status = obs.status || "";\<close>
\<close>

definition observation_fields :: "jsval \<Rightarrow> jsval + (jsstring \<times> jsval \<times> jsval \<times> jsval)" where
  "observation_fields obs =
     and_then (getObservationDate obs) (\<lambda>date.
     and_then (get_prop obs (lit ''valueQuantity'')) (\<lambda>q.
       let valueQuantity = (if truthy q then q else Obj []) in
     and_then (get_prop valueQuantity (lit ''value'')) (\<lambda>value.
     and_then (get_prop valueQuantity (lit ''unit'')) (\<lambda>u.
     and_then (if truthy u then Inr u else get_prop valueQuantity (lit ''code'')) (\<lambda>c.
     and_then (get_prop obs (lit ''status'')) (\<lambda>s.
       let unit = (if truthy c then c else Str (lit ''''));
           status = (if truthy s then s else Str (lit ''''))
       in Inr (date, value, unit, status)))))))"

text \<open>
  The row the callback appends; the template literal converts its four values from left
  to right, and a conversion that throws leaves the row unappended:
  \<^verbatim>\<open><td>${date || ""}</td> <td>${value != null ? value : ""}</td>
  <td>${unit}</td> <td>${status}</td>\<close>
\<close>

definition lab_row :: "jsstring \<Rightarrow> jsval \<Rightarrow> jsval \<Rightarrow> jsval \<Rightarrow> jsval + cell list" where
  "lab_row date value unit status =
     and_then (if \<not> nullish value then to_string value else Inr (lit '''')) (\<lambda>value_cell.
     and_then (to_string unit) (\<lambda>unit_cell.
     and_then (to_string status) (\<lambda>status_cell.
       Inr [Cell 1 (if date \<noteq> [] then date else lit ''''),
            Cell 1 value_cell,
            Cell 1 unit_cell,
            Cell 1 status_cell])))"

text \<open>
  \<open>observations.forEach(function (obs) { ... })\<close> with the arrays \<open>dates\<close> and
  \<open>values\<close> it pushes to: a point is pushed when \<^verbatim>\<open>date && typeof value === "number"\<close>,
  a row is appended for every element. When the callback throws, the loop ends there and
  the rows appended before stay in the table.
\<close>

fun forEach_observation ::
  "jsval list \<Rightarrow> jsstring list \<Rightarrow> jsval list \<Rightarrow> world \<Rightarrow>
     (jsval \<times> world) + (jsstring list \<times> jsval list \<times> world)" where
  "forEach_observation [] dates values w = Inr (dates, values, w)"
| "forEach_observation (obs # rest) dates values w =
     (case observation_fields obs of
        Inl e \<Rightarrow> Inl (e, w)
      | Inr (date, value, unit, status) \<Rightarrow>
          let push = (date \<noteq> [] \<and> typeof value = lit ''number'');
              dates' = (if push then dates @ [date] else dates);
              values' = (if push then values @ [value] else values)
          in (case lab_row date value unit status of
                Inl e \<Rightarrow> Inl (e, w)
              | Inr row \<Rightarrow>
                  forEach_observation rest dates' values'
                    (w\<lparr>lab_table_body := lab_table_body w @ [row]\<rparr>)))"

text \<open>
  The fulfilment handler of the observation query. Its guard is
  \<^verbatim>\<open>!observations || observations.length === 0\<close>.
\<close>

definition labs_then :: "jsval \<Rightarrow> world \<Rightarrow> completion" where
  "labs_then observations w =
     (case (if \<not> truthy observations then Inr True
            else and_then (get_prop observations (lit ''length'')) (\<lambda>len.
                   Inr (strict_equals_number len (lit ''0'')))) of
        Inl e \<Rightarrow> Throw e w
      | Inr True \<Rightarrow>
          Normal (renderChart [] []
            (w\<lparr>status_text := status_text w @ lit '' '' @ [0x2022] @
                   lit '' No cholesterol results found for this patient.'',
               lab_table_body := [[Cell 4 (lit ''No cholesterol results.'')]]\<rparr>))
      | Inr False \<Rightarrow>
          (case observations of
             Arr obs \<Rightarrow>
               (case forEach_observation obs [] [] (w\<lparr>lab_table_body := []\<rparr>) of
                  Inl (e, w') \<Rightarrow> Throw e w'
                | Inr (dates, values, w') \<Rightarrow> Normal (renderChart dates values w'))
           | _ \<Rightarrow>
               Throw (not_a_function ''observations.forEach'') (w\<lparr>lab_table_body := []\<rparr>)))"

text \<open>The rejection handler of the observation query.\<close>

definition labs_catch :: "jsval \<Rightarrow> world \<Rightarrow> completion" where
  "labs_catch err w =
     (let w1 = console_error ''Error loading cholesterol labs:'' err w in
      case and_then (get_prop err (lit ''message'')) (\<lambda>message.
             to_string (if truthy message then message else err)) of
        Inl e \<Rightarrow> Throw e w1
      | Inr shown \<Rightarrow>
          Normal (renderChart [] []
            (w1\<lparr>status_text := status_text w1 @ lit '' '' @ [0x2022] @
                    lit '' Error loading cholesterol labs: '' @ shown,
                lab_table_body := [[Cell 4 (lit ''Error loading labs.'')]]\<rparr>)))"

definition labs_settled :: "jsval + jsval \<Rightarrow> world \<Rightarrow> completion" where
  "labs_settled outcome = then_catch outcome labs_then labs_catch"

text \<open>\<open>loadCholesterolLabs(client, patientId)\<close> up to the request.\<close>

definition loadCholesterolLabs :: "client \<Rightarrow> jsval \<Rightarrow> world \<Rightarrow> completion" where
  "loadCholesterolLabs client patientId w0 =
     (let w = called (LoadCholesterolLabs client patientId) w0;
          pid =
        (if truthy patientId then patientId
         else (case client_patient client of
                 Some ctx \<Rightarrow> if truthy (context_id ctx) then context_id ctx else Null
               | None \<Rightarrow> Null))
      in
      if \<not> truthy pid then
        Normal (renderChart [] []
          (w\<lparr>status_text := status_text w @ lit '' '' @ [0x2022] @
                 lit '' No patient ID available for cholesterol query.'',
             lab_table_body := [[Cell 4 (lit ''No patient ID available.'')]]\<rparr>))
      else
        (case encodeURIComponent pid of
           Inl e \<Rightarrow> Throw e w
         | Inr p \<Rightarrow>
             (case encodeURIComponent (Str (lit ''http://loinc.org|2093-3'')) of
                Inl e \<Rightarrow> Throw e w
              | Inr code \<Rightarrow>
                  Normal (issue
                    (Request client
                       (lit ''Observation?patient='' @ p @ lit ''&code='' @ code @
                        lit ''&_sort=date'')
                       (Some \<lparr>pageLimit = 3, flat = True\<rparr>)) w))))"

section \<open>The entry point\<close>

definition DEV_SERVER_URL :: jsstring where
  "DEV_SERVER_URL = lit ''https://r3.smarthealthit.org''"

definition DEV_PATIENT_ID :: jsval where
  "DEV_PATIENT_ID = Str (lit ''smart-1288992'')"

text \<open>The fulfilment handler of \<open>FHIR.oauth2.ready()\<close>.\<close>

definition ready_then :: "client \<Rightarrow> world \<Rightarrow> completion" where
  "ready_then client w =
     (case to_string (state_serverUrl client) of
        Inl e \<Rightarrow> Throw e w
      | Inr serverUrl \<Rightarrow>
          let w1 = w\<lparr>status_text := lit ''Connected to FHIR server (SMART): '' @ serverUrl\<rparr>;
              patientId =
                (case client_patient client of
                   Some ctx \<Rightarrow> if truthy (context_id ctx) then context_id ctx else Null
                 | None \<Rightarrow> Null)
          in continue (loadPatient client patientId w1) (loadCholesterolLabs client patientId))"

text \<open>
  The rejection handler of \<open>FHIR.oauth2.ready()\<close>. \<open>FHIR.client\<close> belongs to the launch
  library and is the parameter \<open>FHIR_client\<close>. \<open>String(error)\<close> can throw, and so can
  \<open>error.message\<close> and the concatenation of the status text; the handler then ends with
  the status line as it was.
\<close>

definition ready_catch :: "(jsstring \<Rightarrow> client) \<Rightarrow> jsval \<Rightarrow> world \<Rightarrow> completion" where
  "ready_catch FHIR_client error w =
     (let w1 = console_error ''SMART launch error:'' error w in
      case to_string error of
        Inl e \<Rightarrow> Throw e w1
      | Inr text \<Rightarrow>
          if str_includes text (lit ''No 'state' parameter'') then
            (let w2 = w1\<lparr>status_text := lit ''No SMART launch detected '' @ [0x2013] @
                           lit '' using sandbox dev mode with a test patient.''\<rparr>;
                 client = FHIR_client DEV_SERVER_URL;
                 patientId = DEV_PATIENT_ID
             in continue (loadPatient client patientId w2)
                  (loadCholesterolLabs client patientId))
          else
            (case and_then (get_prop error (lit ''message'')) (\<lambda>message.
                    to_string (if truthy message then message else error)) of
               Inl e \<Rightarrow> Throw e w1
             | Inr shown \<Rightarrow> Normal (w1\<lparr>status_text := lit ''Launch error: '' @ shown\<rparr>)))"

definition ready_settled :: "(jsstring \<Rightarrow> client) \<Rightarrow> jsval + client \<Rightarrow> world \<Rightarrow> completion" where
  "ready_settled FHIR_client outcome = then_catch outcome ready_then (ready_catch FHIR_client)"

section \<open>Reading FHIR resources\<close>

text \<open>
  The statements below speak of resources as FHIR types them. \<open>field v k\<close> is what
  \<open>v.k\<close> reads where the read succeeds, \<open>text_of v\<close> the text of \<open>v\<close> where the
  conversion succeeds, and \<open>has_text v\<close> says that it does. A timestamp of an observation
  is present when the property holds a non-empty string; FHIR lets \<open>effectiveDateTime\<close>
  and \<open>issued\<close> be absent or strings, which is what \<open>well_formed_observation\<close> asks.
  It asks nothing of \<open>valueQuantity\<close>. An observation is renderable when moreover the
  three values that the row template converts have a text: the value unless it is
  \<open>null\<close> or \<open>undefined\<close>, the unit and the status.
\<close>

definition field :: "jsval \<Rightarrow> string \<Rightarrow> jsval" where
  "field v k = (case get_prop v (lit k) of Inr x \<Rightarrow> x | Inl e \<Rightarrow> Undefined)"

fun optional_string :: "jsval \<Rightarrow> bool" where
  "optional_string Undefined = True"
| "optional_string Null = True"
| "optional_string (Str s) = True"
| "optional_string v = False"

fun present :: "jsval \<Rightarrow> jsstring option" where
  "present (Str s) = (if s = [] then None else Some s)"
| "present v = None"

definition well_formed_observation :: "jsval \<Rightarrow> bool" where
  "well_formed_observation obs =
     (\<not> nullish obs \<and> optional_string (field obs ''effectiveDateTime'') \<and>
      optional_string (field obs ''issued''))"

text \<open>
  The date of an observation in the words of the specification: the effective timestamp
  truncated to its date portion, else the issued timestamp truncated likewise, else empty.
\<close>

definition extracted_date :: "jsstring option \<Rightarrow> jsstring option \<Rightarrow> jsstring" where
  "extracted_date effective issued =
     (case effective of
        Some e \<Rightarrow> take 10 e
      | None \<Rightarrow> (case issued of Some i \<Rightarrow> take 10 i | None \<Rightarrow> []))"

definition obs_date :: "jsval \<Rightarrow> jsstring" where
  "obs_date obs =
     extracted_date (present (field obs ''effectiveDateTime'')) (present (field obs ''issued''))"


fun is_string :: "jsval \<Rightarrow> bool" where
  "is_string (Str s) = True"
| "is_string v = False"


text \<open>The quantity of an observation, its value, unit and status as the table shows them.\<close>

definition obs_quantity :: "jsval \<Rightarrow> jsval" where
  "obs_quantity obs = (let q = field obs ''valueQuantity'' in if truthy q then q else Obj [])"

definition obs_value :: "jsval \<Rightarrow> jsval" where
  "obs_value obs = field (obs_quantity obs) ''value''"

definition obs_unit :: "jsval \<Rightarrow> jsval" where
  "obs_unit obs =
     (let u = field (obs_quantity obs) ''unit'';
          c = (if truthy u then u else field (obs_quantity obs) ''code'')
      in if truthy c then c else Str [])"

definition obs_status :: "jsval \<Rightarrow> jsval" where
  "obs_status obs = (let s = field obs ''status'' in if truthy s then s else Str [])"

fun is_number :: "jsval \<Rightarrow> bool" where
  "is_number (Num t) = True"
| "is_number v = False"

text \<open>An observation is charted when it has a date and a value that is a number.\<close>

definition charted :: "jsval \<Rightarrow> bool" where
  "charted obs = (obs_date obs \<noteq> [] \<and> is_number (obs_value obs))"

definition text_of :: "jsval \<Rightarrow> jsstring" where
  "text_of v = (case to_string v of Inr t \<Rightarrow> t | Inl e \<Rightarrow> [])"

definition has_text :: "jsval \<Rightarrow> bool" where
  "has_text v = (case to_string v of Inr t \<Rightarrow> True | Inl e \<Rightarrow> False)"

definition renderable_observation :: "jsval \<Rightarrow> bool" where
  "renderable_observation obs =
     (well_formed_observation obs \<and>
      (nullish (obs_value obs) \<or> has_text (obs_value obs)) \<and>
      has_text (obs_unit obs) \<and> has_text (obs_status obs))"

definition obs_row :: "jsval \<Rightarrow> cell list" where
  "obs_row obs =
     [Cell 1 (obs_date obs),
      Cell 1 (if nullish (obs_value obs) then [] else text_of (obs_value obs)),
      Cell 1 (text_of (obs_unit obs)),
      Cell 1 (text_of (obs_status obs))]"

text \<open>The points of the rendered chart: the data of all its series.\<close>

definition chart_points :: "world \<Rightarrow> nat" where
  "chart_points w =
     (case lab_chart w of
        None \<Rightarrow> 0
      | Some c \<Rightarrow> sum_list (map (\<lambda>(name, data). length data) (series c)))"

definition aligned :: "chart_options \<Rightarrow> bool" where
  "aligned c = list_all (\<lambda>(name, data). length data = length (xAxis_categories c)) (series c)"

text \<open>
  The parts of a name as FHIR types them: \<open>given\<close> absent or an array of strings,
  \<open>family\<close> absent or a string; an absent part reads as empty.
\<close>

definition given_parts :: "jsval \<Rightarrow> jsstring list option" where
  "given_parts name =
     (case field name ''given'' of
        Arr xs \<Rightarrow> if list_all is_string xs then Some (map text_of xs) else None
      | Undefined \<Rightarrow> Some []
      | Null \<Rightarrow> Some []
      | _ \<Rightarrow> None)"

definition family_part :: "jsval \<Rightarrow> jsstring option" where
  "family_part name =
     (case field name ''family'' of
        Str s \<Rightarrow> Some s
      | Undefined \<Rightarrow> Some []
      | Null \<Rightarrow> Some []
      | _ \<Rightarrow> None)"

text \<open>
  The rendered name in the words of the specification: the given parts joined with single
  spaces, the family name appended after a space, the whole trimmed, and the marker when
  nothing is left.
\<close>

definition rendered_name :: "jsstring list \<Rightarrow> jsstring \<Rightarrow> jsstring" where
  "rendered_name given family =
     (let full = trim (join_strings (lit '' '') given @ lit '' '' @ family)
      in if full = [] then lit ''(no name)'' else full)"

text \<open>The name that \<open>loadPatient\<close> formats: \<open>patient.name && patient.name[0]\<close>.\<close>

definition first_name :: "jsval \<Rightarrow> jsval" where
  "first_name patient =
     (let names = field patient ''name''
      in if truthy names then (case get_index names 0 of Inr n \<Rightarrow> n | Inl e \<Rightarrow> Undefined)
         else names)"

section \<open>Sample data\<close>

definition sample_page :: world where
  "sample_page =
     \<lparr>status_text = lit ''Loading...'',
      patient_info = Paragraph [] (lit ''Loading patient...''),
      lab_table_body = [],
      lab_chart = None,
      requests = [],
      console = [],
      calls = []\<rparr>"

definition sample_client :: "jsstring \<Rightarrow> client" where
  "sample_client url = \<lparr>state_serverUrl = Str url, client_patient = None\<rparr>"

definition obs_numeric :: jsval where
  "obs_numeric =
     Obj [(lit ''resourceType'', Str (lit ''Observation'')),
          (lit ''status'', Str (lit ''final'')),
          (lit ''effectiveDateTime'', Str (lit ''2020-05-01T10:00:00Z'')),
          (lit ''valueQuantity'',
             Obj [(lit ''value'', Num (lit ''5.2'')), (lit ''unit'', Str (lit ''mmol/L''))])]"

definition obs_coded :: jsval where
  "obs_coded =
     Obj [(lit ''resourceType'', Str (lit ''Observation'')),
          (lit ''status'', Str (lit ''final'')),
          (lit ''issued'', Str (lit ''2019-01-15T00:00:00Z'')),
          (lit ''valueQuantity'',
             Obj [(lit ''value'', Str (lit ''high'')), (lit ''code'', Str (lit ''mg/dL''))])]"

definition obs_undated :: jsval where
  "obs_undated =
     Obj [(lit ''resourceType'', Str (lit ''Observation'')),
          (lit ''valueQuantity'', Obj [(lit ''value'', Num (lit ''190''))])]"


definition obs_unconvertible :: jsval where
  "obs_unconvertible =
     Obj [(lit ''resourceType'', Str (lit ''Observation'')),
          (lit ''effectiveDateTime'', Str (lit ''2021-02-03'')),
          (lit ''valueQuantity'',
             Obj [(lit ''value'', Obj [(lit ''toString'', Num (lit ''1''))])])]"

definition obs_year_only :: jsval where
  "obs_year_only = Obj [(lit ''effectiveDateTime'', Str (lit ''2020''))]"

definition obs_year_month :: jsval where
  "obs_year_month = Obj [(lit ''issued'', Str (lit ''2020-05''))]"

definition name_jane :: jsval where
  "name_jane =
     Obj [(lit ''given'', Arr [Str (lit ''Jane''), Str (lit ''Q'')]),
          (lit ''family'', Str (lit ''Doe''))]"

definition error_no_state :: jsval where
  "error_no_state =
     Err (lit ''Error'') (lit ''No 'state' parameter found. Please (re)launch the app.'')"



definition upper_ascii :: "jsstring \<Rightarrow> jsstring" where
  "upper_ascii s = map (\<lambda>c. if 0x61 \<le> c \<and> c \<le> 0x7A then c - 0x20 else c) s"

definition patient_jane :: jsval where
  "patient_jane =
     Obj [(lit ''resourceType'', Str (lit ''Patient'')),
          (lit ''id'', Str (lit ''smart-1288992'')),
          (lit ''name'', Arr [name_jane]),
          (lit ''gender'', Str (lit ''female'')),
          (lit ''birthDate'', Str (lit ''1961-03-04''))]"

section \<open>Facts about values and strings\<close>

lemma and_then_simps [simp]:
  "and_then (Inl e) f = Inl e" "and_then (Inr v) f = f v"
  by (simp_all add: and_then_def)

lemma lit_Nil [simp]: "lit '''' = []"
  by (simp add: lit_def)

lemma truthy_not_nullish: "truthy v \<Longrightarrow> \<not> nullish v"
  by (cases v) simp_all

lemma get_prop_field: "\<not> nullish v \<Longrightarrow> get_prop v (lit k) = Inr (field v k)"
  by (cases v) (simp_all add: field_def)

lemma typeof_number_iff: "typeof v = lit ''number'' \<longleftrightarrow> is_number v"
  by (cases v) (simp_all add: lit_def)

lemma timestamp_truthy:
  "optional_string v \<Longrightarrow> truthy v \<Longrightarrow> \<exists>s. v = Str s \<and> s \<noteq> []"
  by (cases v) simp_all

lemma present_falsy: "\<not> truthy v \<Longrightarrow> present v = None"
  by (cases v) simp_all

text \<open>\<open>str_includes\<close> is the occurrence of a substring.\<close>

lemma str_includes_iff: "str_includes s p \<longleftrightarrow> (\<exists>u v. s = u @ p @ v)"
proof (induction s)
  case Nil
  then show ?case by auto
next
  case (Cons c cs)
  have here: "take (length p) (c # cs) = p \<longleftrightarrow> (\<exists>v. c # cs = p @ v)"
    by (metis append_eq_conv_conj)
  have "(\<exists>u v. c # cs = u @ p @ v) \<longleftrightarrow> (\<exists>v. c # cs = p @ v) \<or> (\<exists>u v. cs = u @ p @ v)"
  proof
    assume "\<exists>u v. c # cs = u @ p @ v"
    then obtain u v where uv: "c # cs = u @ p @ v" by blast
    show "(\<exists>v. c # cs = p @ v) \<or> (\<exists>u v. cs = u @ p @ v)"
    proof (cases u)
      case Nil
      with uv show ?thesis by auto
    next
      case (Cons a u')
      with uv show ?thesis by auto
    qed
  next
    assume "(\<exists>v. c # cs = p @ v) \<or> (\<exists>u v. cs = u @ p @ v)"
    then show "\<exists>u v. c # cs = u @ p @ v"
    proof
      assume "\<exists>v. c # cs = p @ v"
      then show ?thesis by (metis append_Nil)
    next
      assume "\<exists>u v. cs = u @ p @ v"
      then show ?thesis by (metis append_Cons)
    qed
  qed
  with here show ?case using Cons.IH by simp
qed

lemma decimal_nonempty: "decimal n \<noteq> []"
  by (subst decimal.simps) simp

lemma decimal_zero_iff: "decimal n = lit ''0'' \<longleftrightarrow> n = 0"
proof (cases "n < 10")
  case True
  then have "n \<in> {0, 1, 2, 3, 4, 5, 6, 7, 8, 9}" by auto
  then show ?thesis
    by (subst decimal.simps) (auto simp: lit_def)
next
  case False
  then have "length (decimal n) \<ge> 2"
    using decimal_nonempty [of "n div 10"]
    by (subst decimal.simps) (cases "decimal (n div 10)"; simp)
  with False show ?thesis by (auto simp: lit_def)
qed

section \<open>The date of an observation\<close>

lemma getObservationDate_well_formed:
  assumes "well_formed_observation obs"
  shows "getObservationDate obs = Inr (obs_date obs)"
proof -
  from assms have nn: "\<not> nullish obs"
    and e: "optional_string (field obs ''effectiveDateTime'')"
    and i: "optional_string (field obs ''issued'')"
    by (simp_all add: well_formed_observation_def)
  show ?thesis
  proof (cases "truthy (field obs ''effectiveDateTime'')")
    case True
    with e obtain s where "field obs ''effectiveDateTime'' = Str s" "s \<noteq> []"
      using timestamp_truthy by blast
    then show ?thesis
      by (simp add: getObservationDate_def get_prop_field [OF nn] substring0_def obs_date_def
          extracted_date_def)
  next
    case False
    note no_effective = this
    show ?thesis
    proof (cases "truthy (field obs ''issued'')")
      case True
      with i obtain s where "field obs ''issued'' = Str s" "s \<noteq> []"
        using timestamp_truthy by blast
      with no_effective show ?thesis
        by (simp add: getObservationDate_def get_prop_field [OF nn] substring0_def obs_date_def
            extracted_date_def present_falsy)
    next
      case False
      with no_effective show ?thesis
        by (simp add: getObservationDate_def get_prop_field [OF nn] obs_date_def
            extracted_date_def present_falsy)
    qed
  qed
qed




section \<open>The loop over the observations\<close>

lemma obs_quantity_not_nullish: "\<not> nullish (obs_quantity obs)"
  by (simp add: obs_quantity_def Let_def truthy_not_nullish)

lemma observation_fields_well_formed:
  assumes "well_formed_observation obs"
  shows "observation_fields obs = Inr (obs_date obs, obs_value obs, obs_unit obs, obs_status obs)"
proof -
  from assms have nn: "\<not> nullish obs"
    by (simp add: well_formed_observation_def)
  have q: "(if truthy (field obs ''valueQuantity'') then field obs ''valueQuantity'' else Obj []) =
      obs_quantity obs"
    by (simp add: obs_quantity_def)
  show ?thesis
    unfolding observation_fields_def getObservationDate_well_formed [OF assms]
    by (simp add: get_prop_field [OF nn] q Let_def get_prop_field [OF obs_quantity_not_nullish]
        obs_value_def obs_unit_def obs_status_def)
qed

lemma has_text_to_string: "has_text v \<Longrightarrow> to_string v = Inr (text_of v)"
  by (cases "to_string v") (simp_all add: has_text_def text_of_def)

lemma lab_row_renderable:
  assumes "renderable_observation obs"
  shows "lab_row (obs_date obs) (obs_value obs) (obs_unit obs) (obs_status obs) = Inr (obs_row obs)"
proof -
  from assms have "nullish (obs_value obs) \<or> to_string (obs_value obs) = Inr (text_of (obs_value obs))"
    and "to_string (obs_unit obs) = Inr (text_of (obs_unit obs))"
    and "to_string (obs_status obs) = Inr (text_of (obs_status obs))"
    by (auto simp: renderable_observation_def has_text_to_string)
  then show ?thesis
    by (auto simp: lab_row_def obs_row_def)
qed

lemma forEach_renderable:
  assumes "list_all renderable_observation obs"
  shows "forEach_observation obs ds vs w =
     Inr (ds @ map obs_date (filter charted obs),
          vs @ map obs_value (filter charted obs),
          w\<lparr>lab_table_body := lab_table_body w @ map obs_row obs\<rparr>)"
  using assms
proof (induction obs arbitrary: ds vs w)
  case Nil
  then show ?case by simp
next
  case (Cons x obs)
  from Cons.prems have r: "renderable_observation x"
    and rest: "list_all renderable_observation obs"
    by simp_all
  from r have wf: "well_formed_observation x"
    by (simp add: renderable_observation_def)
  show ?case
    by (simp add: observation_fields_well_formed [OF wf] lab_row_renderable [OF r]
        Cons.IH [OF rest] Let_def typeof_number_iff charted_def)
qed

text \<open>
  Whatever the observations are, a loop that completes has pushed to both arrays or to
  neither at every step, at most once, and has appended one row at every step.
\<close>

lemma forEach_completed:
  assumes "forEach_observation obs ds vs w = Inr (ds', vs', w')"
  shows "length (lab_table_body w') = length (lab_table_body w) + length obs \<and>
         length vs' \<le> length vs + length obs \<and>
         (length ds = length vs \<longrightarrow> length ds' = length vs')"
  using assms
proof (induction obs arbitrary: ds vs w)
  case Nil
  then show ?case by simp
next
  case (Cons x obs)
  from Cons.prems obtain date v unit st row where
    fields: "observation_fields x = Inr (date, v, unit, st)"
    and row: "lab_row date v unit st = Inr row"
    by (auto simp: Let_def split: sum.splits)
  let ?w = "w\<lparr>lab_table_body := lab_table_body w @ [row]\<rparr>"
  show ?case
  proof (cases "date \<noteq> [] \<and> typeof v = lit ''number''")
    case True
    with Cons.prems fields row
    have "forEach_observation obs (ds @ [date]) (vs @ [v]) ?w = Inr (ds', vs', w')"
      by (simp add: Let_def)
    from Cons.IH [OF this] show ?thesis by simp
  next
    case False
    with Cons.prems fields row
    have "forEach_observation obs ds vs ?w = Inr (ds', vs', w')"
      by (auto simp: Let_def)
    from Cons.IH [OF this] show ?thesis by simp
  qed
qed

section \<open>The handlers of the observation query\<close>

lemma length_of_array [simp]:
  "get_prop (Arr xs) (lit ''length'') = Inr (Num (decimal (length xs)))"
  by simp

lemma equals_zero [simp]: "strict_equals_number (Num (decimal n)) (lit ''0'') \<longleftrightarrow> n = 0"
proof -
  have "lit ''0'' \<noteq> lit ''NaN''"
    by (simp add: lit_def)
  then have "strict_equals_number (Num (decimal n)) (lit ''0'') \<longleftrightarrow> decimal n = lit ''0''"
    by (auto simp: strict_equals_number_def)
  then show ?thesis
    by (simp add: decimal_zero_iff)
qed

lemma labs_then_observations:
  assumes "obs \<noteq> []" and "list_all renderable_observation obs"
  shows "labs_then (Arr obs) w =
     Normal (renderChart (map obs_date (filter charted obs)) (map obs_value (filter charted obs))
       (w\<lparr>lab_table_body := map obs_row obs\<rparr>))"
  using assms(1) by (simp add: labs_then_def forEach_renderable [OF assms(2)] del: get_prop.simps)

text \<open>When the handler returns on a non-empty array, the loop has completed.\<close>

lemma labs_then_completed:
  assumes "obs \<noteq> []" and "labs_then (Arr obs) w = Normal w'"
  shows "\<exists>ds vs w1. forEach_observation obs [] [] (w\<lparr>lab_table_body := []\<rparr>) = Inr (ds, vs, w1) \<and>
           w' = renderChart ds vs w1"
  using assms by (auto simp: labs_then_def simp del: get_prop.simps split: sum.splits)

lemma labs_settled_fulfilled:
  "labs_then v w = Normal w' \<Longrightarrow> labs_settled (Inr v) w = Normal w'"
  by (simp add: labs_settled_def then_catch_def)

lemma chart_points_renderChart:
  "length ds = length vs \<Longrightarrow> chart_points (renderChart ds vs w) = length vs"
  by (auto simp: chart_points_def renderChart_def)

lemma rows_renderChart [simp]: "lab_table_body (renderChart ds vs w) = lab_table_body w"
  by (simp add: renderChart_def)

lemma aligned_renderChart:
  "length ds = length vs \<Longrightarrow> \<exists>c. lab_chart (renderChart ds vs w) = Some c \<and> aligned c"
  by (simp add: renderChart_def aligned_def)

lemma labs_then_empty:
  "labs_then (Arr []) w =
     Normal (renderChart [] []
       (w\<lparr>status_text := status_text w @ lit '' '' @ [0x2022] @
              lit '' No cholesterol results found for this patient.'',
          lab_table_body := [[Cell 4 (lit ''No cholesterol results.'')]]\<rparr>))"
  by (simp add: labs_then_def del: get_prop.simps)

lemma labs_then_aligned:
  assumes "labs_then v w = Normal w'"
  shows "\<exists>c. lab_chart w' = Some c \<and> aligned c"
proof -
  let ?guard = "if \<not> truthy v then Inr True
      else and_then (get_prop v (lit ''length'')) (\<lambda>len. Inr (strict_equals_number len (lit ''0'')))"
  show ?thesis
  proof (cases ?guard)
    case (Inl e)
    with assms show ?thesis by (simp add: labs_then_def)
  next
    case (Inr empty)
    show ?thesis
    proof (cases empty)
      case True
      with assms Inr show ?thesis
        using aligned_renderChart [of "[]" "[]"] by (auto simp: labs_then_def)
    next
      case False
      with assms Inr obtain obs ds vs w1 where "v = Arr obs"
        and loop: "forEach_observation obs [] [] (w\<lparr>lab_table_body := []\<rparr>) = Inr (ds, vs, w1)"
        and w': "w' = renderChart ds vs w1"
        by (auto simp: labs_then_def split: sum.splits jsval.splits)
      from forEach_completed [OF loop] have "length ds = length vs" by simp
      with w' show ?thesis
        using aligned_renderChart by simp
    qed
  qed
qed

lemma labs_catch_aligned:
  assumes "labs_catch err w = Normal w'"
  shows "\<exists>c. lab_chart w' = Some c \<and> aligned c"
  using assms aligned_renderChart [of "[]" "[]"]
  by (auto simp: labs_catch_def Let_def split: sum.splits)

lemma labs_settled_aligned:
  assumes "labs_settled outcome w = Normal w'"
  shows "\<exists>c. lab_chart w' = Some c \<and> aligned c"
proof (cases outcome)
  case (Inl err)
  with assms show ?thesis
    using labs_catch_aligned by (simp add: labs_settled_def then_catch_def)
next
  case (Inr v)
  show ?thesis
  proof (cases "labs_then v w")
    case (Normal w1)
    with assms Inr have "w' = w1" by (simp add: labs_settled_def then_catch_def)
    with Normal show ?thesis using labs_then_aligned by simp
  next
    case (Throw e w1)
    with assms Inr have "labs_catch e w1 = Normal w'"
      by (simp add: labs_settled_def then_catch_def)
    then show ?thesis by (rule labs_catch_aligned)
  qed
qed

lemma sample_observations_well_formed:
  "well_formed_observation obs_numeric" "well_formed_observation obs_coded"
  "well_formed_observation obs_undated" "well_formed_observation obs_year_only"
  "well_formed_observation obs_year_month"
  by (simp_all add: well_formed_observation_def field_def lit_def obs_numeric_def obs_coded_def
      obs_undated_def obs_year_only_def obs_year_month_def)

lemma sample_dates:
  "obs_date obs_numeric = lit ''2020-05-01''" "obs_date obs_coded = lit ''2019-01-15''"
  "obs_date obs_undated = []" "obs_date obs_year_only = lit ''2020''"
  "obs_date obs_year_month = lit ''2020-05''"
  by (simp_all add: obs_date_def extracted_date_def field_def lit_def obs_numeric_def obs_coded_def
      obs_undated_def obs_year_only_def obs_year_month_def)

lemma sample_values:
  "obs_value obs_numeric = Num (lit ''5.2'')" "obs_value obs_coded = Str (lit ''high'')"
  "obs_value obs_undated = Num (lit ''190'')"
  by (simp_all add: obs_value_def obs_quantity_def field_def lit_def obs_numeric_def obs_coded_def
      obs_undated_def)

lemma sample_charted:
  "charted obs_numeric" "\<not> charted obs_coded" "\<not> charted obs_undated"
  by (simp_all add: charted_def sample_dates sample_values) (simp add: lit_def)


lemma sample_units_and_statuses:
  "obs_unit obs_numeric = Str (lit ''mmol/L'')" "obs_status obs_numeric = Str (lit ''final'')"
  "obs_unit obs_coded = Str (lit ''mg/dL'')" "obs_status obs_coded = Str (lit ''final'')"
  "obs_unit obs_undated = Str []" "obs_status obs_undated = Str []"
  by (simp_all add: obs_unit_def obs_status_def obs_quantity_def field_def lit_def
      obs_numeric_def obs_coded_def obs_undated_def)

lemma sample_observations_renderable:
  "renderable_observation obs_numeric" "renderable_observation obs_coded"
  "renderable_observation obs_undated"
  by (simp_all add: renderable_observation_def sample_observations_well_formed sample_values
      sample_units_and_statuses has_text_def)

text \<open>
  An observation whose value cannot be converted to text is not renderable: the callback
  throws at its row, and the rejection handler replaces the table by the row of the error.
\<close>

lemma unconvertible_value_error_row:
  "\<not> renderable_observation obs_unconvertible"
  "\<exists>w'. labs_settled (Inr (Arr [obs_numeric, obs_unconvertible])) sample_page = Normal w' \<and>
     lab_table_body w' = [[Cell 4 (lit ''Error loading labs.'')]] \<and> chart_points w' = 0"
proof -
  have v: "obs_value obs_unconvertible = Obj [(lit ''toString'', Num (lit ''1''))]"
    by (simp add: obs_value_def obs_quantity_def field_def lit_def obs_unconvertible_def)
  then show "\<not> renderable_observation obs_unconvertible"
    by (simp add: renderable_observation_def has_text_def)
  have wf: "well_formed_observation obs_unconvertible"
    by (simp add: well_formed_observation_def field_def lit_def obs_unconvertible_def)
  have row: "lab_row (obs_date obs_unconvertible) (obs_value obs_unconvertible)
      (obs_unit obs_unconvertible) (obs_status obs_unconvertible) =
      Inl (type_error (lit ''Cannot convert object to primitive value''))"
    by (simp add: v lab_row_def)
  have "labs_then (Arr [obs_numeric, obs_unconvertible]) sample_page =
      Throw (type_error (lit ''Cannot convert object to primitive value''))
        (sample_page\<lparr>lab_table_body := [obs_row obs_numeric]\<rparr>)"
    by (simp add: labs_then_def observation_fields_well_formed sample_observations_well_formed wf
        lab_row_renderable sample_observations_renderable row Let_def del: get_prop.simps)
  then show "\<exists>w'. labs_settled (Inr (Arr [obs_numeric, obs_unconvertible])) sample_page = Normal w' \<and>
     lab_table_body w' = [[Cell 4 (lit ''Error loading labs.'')]] \<and> chart_points w' = 0"
    by (simp add: labs_settled_def then_catch_def labs_catch_def type_error_def Let_def
        chart_points_renderChart lit_def)
qed

text \<open>
  C2. For every non-empty sequence of observations on which the fulfilment handler of the
  observation query returns, that is, which its success path processes to the end, the
  table has as many rows as the sequence has observations and the chart has at most as
  many points as the table has rows. On every non-empty sequence of renderable
  observations the handler does return.
\<close>

theorem table_rows_equal_observations:
  "(observations \<noteq> [] \<and> labs_then (Arr observations) w = Normal w' \<longrightarrow>
      length (lab_table_body w') = length observations \<and>
      chart_points w' \<le> length (lab_table_body w')) \<and>
   (observations \<noteq> [] \<and> list_all renderable_observation observations \<longrightarrow>
      (\<exists>w'. labs_then (Arr observations) w = Normal w'))"
proof (intro conjI impI)
  assume a: "observations \<noteq> [] \<and> labs_then (Arr observations) w = Normal w'"
  then obtain ds vs w1 where
    loop: "forEach_observation observations [] [] (w\<lparr>lab_table_body := []\<rparr>) = Inr (ds, vs, w1)"
    and w': "w' = renderChart ds vs w1"
    using labs_then_completed by blast
  from forEach_completed [OF loop]
  have rows: "length (lab_table_body w1) = length observations"
    and points: "length vs \<le> length observations" and same: "length ds = length vs"
    by simp_all
  from rows w' show "length (lab_table_body w') = length observations"
    by simp
  with points same w' show "chart_points w' \<le> length (lab_table_body w')"
    by (simp add: chart_points_renderChart)
next
  assume "observations \<noteq> [] \<and> list_all renderable_observation observations"
  then show "\<exists>w'. labs_then (Arr observations) w = Normal w'"
    by (simp add: labs_then_observations)
qed

theorem table_rows_equal_observations_witness:
  "[obs_numeric, obs_coded, obs_undated] \<noteq> [] \<and>
   list_all renderable_observation [obs_numeric, obs_coded, obs_undated] \<and>
   (\<exists>w'. labs_then (Arr [obs_numeric, obs_coded, obs_undated]) sample_page = Normal w' \<and>
      length (lab_table_body w') = 3 \<and> chart_points w' \<le> length (lab_table_body w'))"
proof -
  have r: "list_all renderable_observation [obs_numeric, obs_coded, obs_undated]"
    by (simp add: sample_observations_renderable)
  then obtain w' where
    w': "labs_then (Arr [obs_numeric, obs_coded, obs_undated]) sample_page = Normal w'"
    using table_rows_equal_observations
      [of "[obs_numeric, obs_coded, obs_undated]" sample_page] by blast
  with table_rows_equal_observations [of "[obs_numeric, obs_coded, obs_undated]" sample_page w']
  have "length (lab_table_body w') = 3 \<and> chart_points w' \<le> length (lab_table_body w')"
    by simp
  with r w' show ?thesis by blast
qed

lemma labs_settled_observations:
  assumes "list_all renderable_observation obs"
  shows "labs_settled (Inr (Arr obs)) w =
     (if obs = [] then
        Normal (renderChart [] []
          (w\<lparr>status_text := status_text w @ lit '' '' @ [0x2022] @
                 lit '' No cholesterol results found for this patient.'',
             lab_table_body := [[Cell 4 (lit ''No cholesterol results.'')]]\<rparr>))
      else
        Normal (renderChart (map obs_date (filter charted obs)) (map obs_value (filter charted obs))
          (w\<lparr>lab_table_body := map obs_row obs\<rparr>)))"
  using labs_then_observations [OF _ assms, of w]
  by (auto intro: labs_settled_fulfilled simp: labs_then_empty)

text \<open>
  C3. For every sequence of renderable observations, once the observation query has
  returned it the chart has exactly as many points as the sequence has observations with
  both a non-empty date and a value that is a number.
\<close>

theorem chart_points_are_dated_numbers:
  assumes "list_all renderable_observation observations"
  shows "\<exists>w'. labs_settled (Inr (Arr observations)) w = Normal w' \<and>
           chart_points w' =
             length (filter (\<lambda>obs. obs_date obs \<noteq> [] \<and> is_number (obs_value obs)) observations)"
proof -
  have "(\<lambda>obs. obs_date obs \<noteq> [] \<and> is_number (obs_value obs)) = charted"
    by (simp add: charted_def fun_eq_iff)
  then show ?thesis
    by (simp add: labs_settled_observations [OF assms] chart_points_renderChart)
qed

theorem chart_points_are_dated_numbers_witness:
  "list_all renderable_observation [obs_numeric, obs_coded, obs_undated] \<and>
   (\<exists>w'. labs_settled (Inr (Arr [obs_numeric, obs_coded, obs_undated])) sample_page = Normal w' \<and>
      chart_points w' = 1)"
proof -
  have r: "list_all renderable_observation [obs_numeric, obs_coded, obs_undated]"
    by (simp add: sample_observations_renderable)
  have "filter charted [obs_numeric, obs_coded, obs_undated] = [obs_numeric]"
    by (simp add: sample_charted)
  then have "length (filter (\<lambda>obs. obs_date obs \<noteq> [] \<and> is_number (obs_value obs))
      [obs_numeric, obs_coded, obs_undated]) = 1"
    by (simp add: charted_def [abs_def])
  with chart_points_are_dated_numbers [OF r, of sample_page] r show ?thesis
    by simp
qed

text \<open>
  C4. An observation whose \<open>valueQuantity.value\<close> is present, is not a number and has a
  text (a coded result such as a string), anywhere in a sequence of renderable
  observations, gets exactly one row of the table, at its position; the value cell of
  that row holds the text of the value as it is, and the chart has the points of the other
  observations only.
\<close>

theorem coded_value_row_without_point:
  assumes "list_all renderable_observation (earlier @ obs # later)"
    and "\<not> nullish (obs_value obs)" and "\<not> is_number (obs_value obs)"
    and "to_string (obs_value obs) = Inr shown"
  shows "\<exists>w'. labs_settled (Inr (Arr (earlier @ obs # later))) w = Normal w' \<and>
           length (lab_table_body w') = length earlier + 1 + length later \<and>
           lab_table_body w' ! length earlier =
             [Cell 1 (obs_date obs), Cell 1 shown,
              Cell 1 (text_of (obs_unit obs)), Cell 1 (text_of (obs_status obs))] \<and>
           chart_points w' = length (filter charted earlier) + length (filter charted later)"
proof -
  have "\<not> charted obs"
    using assms(3) by (simp add: charted_def)
  moreover have "obs_row obs =
      [Cell 1 (obs_date obs), Cell 1 shown,
       Cell 1 (text_of (obs_unit obs)), Cell 1 (text_of (obs_status obs))]"
    using assms(2,4) by (simp add: obs_row_def text_of_def)
  ultimately show ?thesis
    by (simp add: labs_settled_observations [OF assms(1)] chart_points_renderChart nth_append)
qed

theorem coded_value_row_without_point_witness:
  "list_all renderable_observation ([obs_numeric] @ obs_coded # [obs_undated]) \<and>
   \<not> nullish (obs_value obs_coded) \<and> \<not> is_number (obs_value obs_coded) \<and>
   obs_value obs_coded = Str (lit ''high'') \<and>
   to_string (obs_value obs_coded) = Inr (lit ''high'') \<and>
   (\<exists>w'. labs_settled (Inr (Arr ([obs_numeric] @ obs_coded # [obs_undated]))) sample_page = Normal w' \<and>
      length (lab_table_body w') = 3 \<and>
      lab_table_body w' ! 1 =
        [Cell 1 (lit ''2019-01-15''), Cell 1 (lit ''high''), Cell 1 (lit ''mg/dL''),
         Cell 1 (lit ''final'')] \<and>
      chart_points w' = 1)"
proof -
  have r: "list_all renderable_observation ([obs_numeric] @ obs_coded # [obs_undated])"
    by (simp add: sample_observations_renderable)
  have v: "\<not> nullish (obs_value obs_coded)" "\<not> is_number (obs_value obs_coded)"
    "to_string (obs_value obs_coded) = Inr (lit ''high'')"
    by (simp_all add: sample_values)
  have texts: "text_of (obs_unit obs_coded) = lit ''mg/dL''"
    "text_of (obs_status obs_coded) = lit ''final''"
    by (simp_all add: sample_units_and_statuses text_of_def)
  from coded_value_row_without_point [OF r v, of sample_page] r v show ?thesis
    by (simp add: sample_dates sample_values sample_charted texts numeral_3_eq_3)
qed

text \<open>
  C8. When the observation query returns an empty array, or nothing (\<open>undefined\<close> or
  \<open>null\<close>), the note of no results is appended to the status line, the table holds the
  single row of one cell spanning four columns with the text \<open>No cholesterol results.\<close>,
  and the chart is the placeholder titled \<open>No data to display\<close> with no series.
\<close>

theorem empty_result_placeholders:
  assumes "observations = Arr [] \<or> observations = Undefined \<or> observations = Null"
  shows "labs_settled (Inr observations) w =
     Normal (w\<lparr>status_text := status_text w @ lit '' '' @ [0x2022] @
                   lit '' No cholesterol results found for this patient.'',
               lab_table_body := [[Cell 4 (lit ''No cholesterol results.'')]],
               lab_chart := Some
                 \<lparr>chart_type = None,
                  title_text = lit ''No data to display'',
                  xAxis_categories = [],
                  xAxis_title = None,
                  yAxis_title = None,
                  tooltip = None,
                  series = [],
                  credits_enabled = False\<rparr>\<rparr>)"
proof -
  have "labs_then observations w =
     Normal (renderChart [] []
       (w\<lparr>status_text := status_text w @ lit '' '' @ [0x2022] @
              lit '' No cholesterol results found for this patient.'',
          lab_table_body := [[Cell 4 (lit ''No cholesterol results.'')]]\<rparr>))"
    using assms by (auto simp: labs_then_empty) (simp_all add: labs_then_def)
  then show ?thesis
    by (simp add: labs_settled_fulfilled renderChart_def)
qed

theorem empty_result_placeholders_witness:
  "\<exists>w'. labs_settled (Inr (Arr [])) sample_page = Normal w' \<and>
     status_text w' = lit ''Loading...'' @ lit '' '' @ [0x2022] @
       lit '' No cholesterol results found for this patient.'' \<and>
     lab_table_body w' = [[Cell 4 (lit ''No cholesterol results.'')]] \<and>
     chart_points w' = 0 \<and>
     map_option title_text (lab_chart w') = Some (lit ''No data to display'') \<and>
     map_option series (lab_chart w') = Some []"
  using empty_result_placeholders [of "Arr []" sample_page]
  by (simp add: sample_page_def chart_points_def)

text \<open>
  C9. The loop pushes to \<open>dates\<close> and \<open>values\<close> together: whenever it completes, the two
  arrays it hands to \<open>renderChart\<close> have the same length, and on renderable observations
  it does complete. However the observation query settles, every series of the chart
  rendered has as many data points as the x axis has categories.
\<close>

theorem dates_and_values_aligned:
  "(\<forall>dates vals w1. forEach_observation observations [] [] w = Inr (dates, vals, w1) \<longrightarrow>
      length dates = length vals) \<and>
   (list_all renderable_observation observations \<longrightarrow>
      (\<exists>dates vals w1. forEach_observation observations [] [] w = Inr (dates, vals, w1))) \<and>
   (\<forall>w'. labs_settled outcome w = Normal w' \<longrightarrow> (\<exists>c. lab_chart w' = Some c \<and> aligned c))"
proof (intro conjI allI impI)
  fix dates vals w1
  assume "forEach_observation observations [] [] w = Inr (dates, vals, w1)"
  then show "length dates = length vals"
    using forEach_completed by fastforce
next
  assume "list_all renderable_observation observations"
  then show "\<exists>dates vals w1. forEach_observation observations [] [] w = Inr (dates, vals, w1)"
    by (simp add: forEach_renderable)
next
  fix w'
  assume "labs_settled outcome w = Normal w'"
  then show "\<exists>c. lab_chart w' = Some c \<and> aligned c"
    by (rule labs_settled_aligned)
qed

theorem dates_and_values_aligned_witness:
  "list_all renderable_observation [obs_numeric, obs_coded, obs_undated] \<and>
   (\<exists>dates vals w1.
      forEach_observation [obs_numeric, obs_coded, obs_undated] [] [] sample_page =
        Inr (dates, vals, w1) \<and>
      length dates = length vals) \<and>
   (\<exists>w' c. labs_settled (Inr (Arr [obs_numeric, obs_coded, obs_undated])) sample_page = Normal w' \<and>
      lab_chart w' = Some c \<and> aligned c)"
proof -
  have r: "list_all renderable_observation [obs_numeric, obs_coded, obs_undated]"
    by (simp add: sample_observations_renderable)
  have settled: "\<exists>w'. labs_settled (Inr (Arr [obs_numeric, obs_coded, obs_undated])) sample_page =
      Normal w'"
    by (simp add: labs_settled_observations [OF r])
  from dates_and_values_aligned
    [of "[obs_numeric, obs_coded, obs_undated]" sample_page
      "Inr (Arr [obs_numeric, obs_coded, obs_undated])"]
    r settled
  show ?thesis by fastforce
qed

text \<open>
  C6. For every well-formed observation the extracted date is the first ten code units of
  the effective timestamp when that is present, else of the issued timestamp when that is
  present, else the empty string.
\<close>

theorem observation_date_extracted:
  assumes "well_formed_observation obs"
  shows "getObservationDate obs =
     Inr (extracted_date (present (field obs ''effectiveDateTime''))
            (present (field obs ''issued'')))"
  using getObservationDate_well_formed [OF assms] by (simp add: obs_date_def)

theorem observation_date_extracted_witness:
  "well_formed_observation obs_numeric \<and> well_formed_observation obs_coded \<and>
   well_formed_observation obs_undated \<and>
   field obs_numeric ''effectiveDateTime'' = Str (lit ''2020-05-01T10:00:00Z'') \<and>
   getObservationDate obs_numeric = Inr (lit ''2020-05-01'') \<and>
   field obs_coded ''effectiveDateTime'' = Undefined \<and>
   field obs_coded ''issued'' = Str (lit ''2019-01-15T00:00:00Z'') \<and>
   getObservationDate obs_coded = Inr (lit ''2019-01-15'') \<and>
   field obs_undated ''effectiveDateTime'' = Undefined \<and>
   field obs_undated ''issued'' = Undefined \<and>
   getObservationDate obs_undated = Inr (lit '''')"
  using observation_date_extracted [of obs_numeric] observation_date_extracted [of obs_coded]
    observation_date_extracted [of obs_undated] sample_observations_well_formed(1-3)
  by (simp add: extracted_date_def field_def obs_numeric_def obs_coded_def obs_undated_def lit_def)







section \<open>The entry point\<close>

lemma encode_dev_patient: "encodeURIComponent DEV_PATIENT_ID = Inr (lit ''smart-1288992'')"
  by (simp add: DEV_PATIENT_ID_def encodeURIComponent_def lit_def uri_unreserved_def)

lemma encode_loinc:
  "encodeURIComponent (Str (lit ''http://loinc.org|2093-3'')) =
     Inr (lit ''http%3A%2F%2Floinc.org%7C2093-3'')"
  by (simp add: encodeURIComponent_def lit_def uri_unreserved_def escape_def utf8_def percent_def
      hex_digit_def)

lemma loadPatient_by_id:
  assumes "truthy patientId" and "encodeURIComponent patientId = Inr p"
  shows "loadPatient client patientId w =
     Normal (issue (Request client (lit ''Patient/'' @ p) None)
       (called (LoadPatient client patientId) w))"
  using assms by (simp add: loadPatient_def)

lemma loadCholesterolLabs_by_id:
  assumes "truthy patientId" and "encodeURIComponent patientId = Inr p"
  shows "loadCholesterolLabs client patientId w =
     Normal (issue
       (Request client
          (lit ''Observation?patient='' @ p @ lit ''&code=http%3A%2F%2Floinc.org%7C2093-3&_sort=date'')
          (Some \<lparr>pageLimit = 3, flat = True\<rparr>))
       (called (LoadCholesterolLabs client patientId) w))"
proof -
  have "lit ''&code='' @ lit ''http%3A%2F%2Floinc.org%7C2093-3'' @ lit ''&_sort=date'' =
      lit ''&code=http%3A%2F%2Floinc.org%7C2093-3&_sort=date''"
    by (simp add: lit_def)
  with assms show ?thesis
    by (simp add: loadCholesterolLabs_def encode_loinc)
qed

lemma truthy_dev_patient: "truthy DEV_PATIENT_ID"
  by (simp add: DEV_PATIENT_ID_def lit_def)

text \<open>
  C1. Whenever the failure has a string that contains the phrase \<open>No 'state' parameter\<close>,
  the rejection handler takes the client \<open>FHIR.client("https://r3.smarthealthit.org")\<close>
  and the patient identifier \<open>smart-1288992\<close> and calls \<open>loadPatient\<close> and then
  \<open>loadCholesterolLabs\<close> with the two; the calls issue the patient request and the
  observation request for that patient on that client.
\<close>

theorem fallback_session_loads:
  assumes "to_string error = Inr text"
    and "str_includes text (lit ''No 'state' parameter'')"
  shows "let session = FHIR_client (lit ''https://r3.smarthealthit.org'');
             patient_id = Str (lit ''smart-1288992'');
             page = (console_error ''SMART launch error:'' error w)
               \<lparr>status_text := lit ''No SMART launch detected '' @ [0x2013] @
                  lit '' using sandbox dev mode with a test patient.''\<rparr>
         in ready_catch FHIR_client error w =
              continue (loadPatient session patient_id page)
                (loadCholesterolLabs session patient_id) \<and>
            ready_catch FHIR_client error w =
              Normal (page
                \<lparr>requests := requests w @
                   [Request session (lit ''Patient/smart-1288992'') None,
                    Request session
                      (lit ''Observation?patient=smart-1288992&code=http%3A%2F%2Floinc.org%7C2093-3&_sort=date'')
                      (Some \<lparr>pageLimit = 3, flat = True\<rparr>)],
                 calls := calls w @
                   [LoadPatient session patient_id, LoadCholesterolLabs session patient_id]\<rparr>)"
proof -
  let ?session = "FHIR_client (lit ''https://r3.smarthealthit.org'')"
  let ?id = "Str (lit ''smart-1288992'')"
  let ?page = "(console_error ''SMART launch error:'' error w)
      \<lparr>status_text := lit ''No SMART launch detected '' @ [0x2013] @
         lit '' using sandbox dev mode with a test patient.''\<rparr>"
  have url: "lit ''Patient/'' @ lit ''smart-1288992'' = lit ''Patient/smart-1288992''"
    "lit ''Observation?patient='' @ lit ''smart-1288992'' @
       lit ''&code=http%3A%2F%2Floinc.org%7C2093-3&_sort=date'' =
     lit ''Observation?patient=smart-1288992&code=http%3A%2F%2Floinc.org%7C2093-3&_sort=date''"
    by (simp_all add: lit_def)
  have first: "ready_catch FHIR_client error w =
      continue (loadPatient ?session ?id ?page) (loadCholesterolLabs ?session ?id)"
    using assms by (simp add: ready_catch_def Let_def DEV_SERVER_URL_def DEV_PATIENT_ID_def)
  have second: "continue (loadPatient ?session ?id ?page) (loadCholesterolLabs ?session ?id) =
      Normal (?page
        \<lparr>requests := requests w @
           [Request ?session (lit ''Patient/smart-1288992'') None,
            Request ?session
              (lit ''Observation?patient=smart-1288992&code=http%3A%2F%2Floinc.org%7C2093-3&_sort=date'')
              (Some \<lparr>pageLimit = 3, flat = True\<rparr>)],
         calls := calls w @ [LoadPatient ?session ?id, LoadCholesterolLabs ?session ?id]\<rparr>)"
    using truthy_dev_patient encode_dev_patient
    by (simp add: DEV_PATIENT_ID_def loadPatient_by_id loadCholesterolLabs_by_id continue_def url
        issue_def called_def console_error_def)
  show ?thesis
    unfolding Let_def using first second by simp
qed

theorem fallback_session_loads_witness:
  "to_string error_no_state =
     Inr (lit ''Error: No 'state' parameter found. Please (re)launch the app.'') \<and>
   str_includes (lit ''Error: No 'state' parameter found. Please (re)launch the app.'')
     (lit ''No 'state' parameter'') \<and>
   (\<exists>w'. ready_catch sample_client error_no_state sample_page = Normal w' \<and>
      calls w' =
        [LoadPatient (sample_client (lit ''https://r3.smarthealthit.org''))
           (Str (lit ''smart-1288992'')),
         LoadCholesterolLabs (sample_client (lit ''https://r3.smarthealthit.org''))
           (Str (lit ''smart-1288992''))] \<and>
      requests w' =
        [Request (sample_client (lit ''https://r3.smarthealthit.org''))
           (lit ''Patient/smart-1288992'') None,
         Request (sample_client (lit ''https://r3.smarthealthit.org''))
           (lit ''Observation?patient=smart-1288992&code=http%3A%2F%2Floinc.org%7C2093-3&_sort=date'')
           (Some \<lparr>pageLimit = 3, flat = True\<rparr>)])"
proof -
  have str: "to_string error_no_state =
      Inr (lit ''Error: No 'state' parameter found. Please (re)launch the app.'')"
    by (simp add: error_no_state_def lit_def)
  have phrase: "str_includes (lit ''Error: No 'state' parameter found. Please (re)launch the app.'')
      (lit ''No 'state' parameter'')"
    by (simp add: lit_def)
  from fallback_session_loads [OF str phrase, where FHIR_client = sample_client and w = sample_page]
  have "ready_catch sample_client error_no_state sample_page =
      Normal ((console_error ''SMART launch error:'' error_no_state sample_page)
        \<lparr>status_text := lit ''No SMART launch detected '' @ [0x2013] @
           lit '' using sandbox dev mode with a test patient.'',
         requests := requests sample_page @
           [Request (sample_client (lit ''https://r3.smarthealthit.org''))
              (lit ''Patient/smart-1288992'') None,
            Request (sample_client (lit ''https://r3.smarthealthit.org''))
              (lit ''Observation?patient=smart-1288992&code=http%3A%2F%2Floinc.org%7C2093-3&_sort=date'')
              (Some \<lparr>pageLimit = 3, flat = True\<rparr>)],
         calls := calls sample_page @
           [LoadPatient (sample_client (lit ''https://r3.smarthealthit.org''))
              (Str (lit ''smart-1288992'')),
            LoadCholesterolLabs (sample_client (lit ''https://r3.smarthealthit.org''))
              (Str (lit ''smart-1288992''))]\<rparr>)"
    unfolding Let_def by (rule conjunct2)
  with str phrase show ?thesis
    by (simp add: sample_page_def console_error_def)
qed

text \<open>
  A failure that has no string, such as an array holding an object with a \<open>toString\<close>
  property of its own, makes \<open>String(error)\<close> throw: no loader is called, even though the
  phrase is among its elements.
\<close>

lemma failure_without_string:
  "ready_catch FHIR_client
     (Arr [Obj [(lit ''toString'', Num (lit ''1''))], Str (lit ''No 'state' parameter'')]) w =
   Throw (type_error (lit ''Cannot convert object to primitive value''))
     (console_error ''SMART launch error:''
        (Arr [Obj [(lit ''toString'', Num (lit ''1''))], Str (lit ''No 'state' parameter'')]) w)"
  by (simp add: ready_catch_def)




section \<open>The name of the patient\<close>

lemma elements_text_strings: "list_all is_string xs \<Longrightarrow> elements_text xs = Inr (map text_of xs)"
proof (induction xs)
  case Nil
  then show ?case by simp
next
  case (Cons x xs)
  then show ?case by (cases x) (simp_all add: text_of_def)
qed

lemma array_join_strings:
  "list_all is_string xs \<Longrightarrow> array_join sep xs = Inr (join_strings sep (map text_of xs))"
  by (simp add: array_join_def elements_text_strings)

lemma array_join_Nil: "array_join sep [] = Inr []"
  by (simp add: array_join_def)

lemma trim_space: "trim (lit '' '') = []"
  by (simp add: trim_def is_white_space_def lit_def)

lemma falsy_has_no_name_parts:
  "\<not> truthy v \<Longrightarrow> field v ''given'' = Undefined \<and> field v ''family'' = Undefined"
  by (cases v) (simp_all add: field_def lit_def)

lemma formatHumanName_parts:
  assumes g: "given_parts name = Some given" and f: "family_part name = Some family"
  shows "formatHumanName name = Inr (rendered_name given family)"
proof (cases "truthy name")
  case False
  then have "field name ''given'' = Undefined" "field name ''family'' = Undefined"
    by (simp_all add: falsy_has_no_name_parts)
  with g f have "given = []" "family = []"
    by (simp_all add: given_parts_def family_part_def)
  with False show ?thesis
    by (simp add: formatHumanName_def rendered_name_def trim_space)
next
  case True
  then have nn: "\<not> nullish name" by (rule truthy_not_nullish)
  let ?g = "field name ''given''" and ?f = "field name ''family''"
  have joined: "call_join (if truthy ?g then ?g else Arr []) (lit '' '') ''(name.given || [])'' =
      Inr (join_strings (lit '' '') given)"
    using g
    by (auto simp: given_parts_def call_join_def array_join_strings array_join_Nil
        split: jsval.splits if_splits)
  have fam: "to_string (if truthy ?f then ?f else Str (lit '''')) = Inr family"
    using f by (auto simp: family_part_def split: jsval.splits)
  have "formatHumanName name =
      Inr (if trim (join_strings (lit '' '') given @ lit '' '' @ family) \<noteq> []
           then trim (join_strings (lit '' '') given @ lit '' '' @ family)
           else lit ''(no name)'')"
    by (simp only: formatHumanName_def True not_True_eq_False if_False get_prop_field [OF nn]
        and_then_simps joined Let_def fam)
  then show ?thesis
    by (simp add: rendered_name_def Let_def)
qed

lemma get_index_truthy:
  "truthy v \<Longrightarrow> get_index v i = Inr (case get_index v i of Inr n \<Rightarrow> n | Inl e \<Rightarrow> Undefined)"
  by (cases v) simp_all

lemma first_name_read:
  "(if truthy (field patient ''name'') then get_index (field patient ''name'') 0
    else Inr (field patient ''name'')) = Inr (first_name patient)"
  using get_index_truthy [of "field patient ''name''" 0]
  by (simp add: first_name_def)

lemma capitalize_gender:
  assumes "optional_string g"
  shows "\<exists>c. capitalize toUpperCase (if truthy g then g else Str (lit ''unknown'')) = Inr c"
proof (cases "truthy g")
  case True
  with assms obtain s where "g = Str s" "s \<noteq> []"
    using timestamp_truthy by blast
  with True show ?thesis by (simp add: capitalize_def)
next
  case False
  moreover have "lit ''unknown'' \<noteq> []" by (simp add: lit_def)
  ultimately show ?thesis by (simp add: capitalize_def)
qed

lemma default_has_text:
  "has_text v \<Longrightarrow> \<exists>t. to_string (if truthy v then v else Str d) = Inr t"
  by (cases "to_string v") (simp_all add: has_text_def)

lemma patient_texts_well_formed:
  assumes nn: "\<not> nullish patient"
    and g: "given_parts (first_name patient) = Some given"
    and f: "family_part (first_name patient) = Some family"
    and gender: "optional_string (field patient ''gender'')"
    and dob: "has_text (field patient ''birthDate'')"
    and ident: "has_text (field patient ''id'')"
  shows "\<exists>c d i. patient_texts toUpperCase patient = Inr (rendered_name given family, c, d, i)"
proof -
  from capitalize_gender [OF gender] obtain c where
    c: "capitalize toUpperCase
         (if truthy (field patient ''gender'') then field patient ''gender''
          else Str (lit ''unknown'')) = Inr c"
    by blast
  from default_has_text [OF dob] obtain d where
    d: "to_string (if truthy (field patient ''birthDate'') then field patient ''birthDate''
          else Str (lit ''unknown'')) = Inr d"
    by blast
  from default_has_text [OF ident] obtain i where
    i: "to_string (if truthy (field patient ''id'') then field patient ''id''
          else Str (lit ''(no id)'')) = Inr i"
    by blast
  have "patient_texts toUpperCase patient = Inr (rendered_name given family, c, d, i)"
    by (simp only: patient_texts_def get_prop_field [OF nn] and_then_simps first_name_read
        formatHumanName_parts [OF g f] Let_def c d i)
  then show ?thesis by blast
qed

text \<open>
  C5. The name that \<open>formatHumanName\<close> gives for a name whose given parts and family name
  are typed as FHIR types them is the given parts joined with single spaces, a space and
  the family name, trimmed, or \<open>(no name)\<close> when that is empty, as it is when there is no
  name at all. It is this text that the patient grid shows for the first listed name of a
  patient record whose gender is absent or a string and whose birth date and identifier
  have a text.
\<close>

theorem patient_name_rendered:
  assumes "given_parts name = Some given" and "family_part name = Some family"
  shows "formatHumanName name = Inr (rendered_name given family) \<and>
     (given = [] \<and> family = [] \<longrightarrow> formatHumanName name = Inr (lit ''(no name)'')) \<and>
     (\<not> nullish patient \<and> first_name patient = name \<and>
      optional_string (field patient ''gender'') \<and>
      has_text (field patient ''birthDate'') \<and> has_text (field patient ''id'') \<longrightarrow>
        (\<exists>gender dob ident.
           loadPatient_then toUpperCase patient w =
             Normal (w\<lparr>patient_info :=
               Grid [(lit ''Name'', rendered_name given family), (lit ''Gender'', gender),
                     (lit ''Date of Birth'', dob), (lit ''Patient ID'', ident)]\<rparr>)))"
proof (intro conjI impI)
  show shown: "formatHumanName name = Inr (rendered_name given family)"
    using assms by (rule formatHumanName_parts)
  show "formatHumanName name = Inr (lit ''(no name)'')" if "given = [] \<and> family = []"
    using that shown by (simp add: rendered_name_def trim_space)
  show "\<exists>gender dob ident.
      loadPatient_then toUpperCase patient w =
        Normal (w\<lparr>patient_info :=
          Grid [(lit ''Name'', rendered_name given family), (lit ''Gender'', gender),
                (lit ''Date of Birth'', dob), (lit ''Patient ID'', ident)]\<rparr>)"
    if "\<not> nullish patient \<and> first_name patient = name \<and>
      optional_string (field patient ''gender'') \<and>
      has_text (field patient ''birthDate'') \<and> has_text (field patient ''id'')"
  proof -
    from that assms obtain c d i where
      "patient_texts toUpperCase patient = Inr (rendered_name given family, c, d, i)"
      using patient_texts_well_formed [of patient given family toUpperCase] by blast
    then have "loadPatient_then toUpperCase patient w =
        Normal (w\<lparr>patient_info :=
          Grid [(lit ''Name'', rendered_name given family), (lit ''Gender'', c),
                (lit ''Date of Birth'', d), (lit ''Patient ID'', i)]\<rparr>)"
      by (simp add: loadPatient_then_def)
    then show ?thesis by blast
  qed
qed

theorem patient_name_rendered_witness:
  "given_parts name_jane = Some [lit ''Jane'', lit ''Q''] \<and>
   family_part name_jane = Some (lit ''Doe'') \<and>
   formatHumanName name_jane = Inr (lit ''Jane Q Doe'') \<and>
   given_parts Undefined = Some [] \<and> family_part Undefined = Some [] \<and>
   formatHumanName Undefined = Inr (lit ''(no name)'') \<and>
   \<not> nullish patient_jane \<and> first_name patient_jane = name_jane \<and>
   optional_string (field patient_jane ''gender'') \<and>
   has_text (field patient_jane ''birthDate'') \<and> has_text (field patient_jane ''id'') \<and>
   (\<exists>gender dob ident.
      loadPatient_then upper_ascii patient_jane sample_page =
        Normal (sample_page\<lparr>patient_info :=
          Grid [(lit ''Name'', lit ''Jane Q Doe''), (lit ''Gender'', gender),
                (lit ''Date of Birth'', dob), (lit ''Patient ID'', ident)]\<rparr>))"
proof -
  have parts: "given_parts name_jane = Some [lit ''Jane'', lit ''Q'']"
    "family_part name_jane = Some (lit ''Doe'')"
    by (simp_all add: given_parts_def family_part_def field_def name_jane_def text_of_def lit_def)
  have none: "given_parts Undefined = Some []" "family_part Undefined = Some []"
    by (simp_all add: given_parts_def family_part_def field_def)
  have patient: "\<not> nullish patient_jane" "first_name patient_jane = name_jane"
    "optional_string (field patient_jane ''gender'')"
    "has_text (field patient_jane ''birthDate'')" "has_text (field patient_jane ''id'')"
    by (simp_all add: first_name_def field_def patient_jane_def has_text_def lit_def)
  have jane: "rendered_name [lit ''Jane'', lit ''Q''] (lit ''Doe'') = lit ''Jane Q Doe''"
    by (simp add: rendered_name_def trim_def is_white_space_def lit_def)
  from patient_name_rendered [OF parts, of patient_jane upper_ascii sample_page] patient
  have "formatHumanName name_jane = Inr (rendered_name [lit ''Jane'', lit ''Q''] (lit ''Doe''))"
    and "\<exists>gender dob ident.
      loadPatient_then upper_ascii patient_jane sample_page =
        Normal (sample_page\<lparr>patient_info :=
          Grid [(lit ''Name'', rendered_name [lit ''Jane'', lit ''Q''] (lit ''Doe'')),
                (lit ''Gender'', gender), (lit ''Date of Birth'', dob),
                (lit ''Patient ID'', ident)]\<rparr>)"
    by blast+
  moreover from patient_name_rendered [OF none, of Undefined id sample_page]
  have "formatHumanName Undefined = Inr (lit ''(no name)'')"
    by blast
  ultimately show ?thesis
    using parts none patient by (simp only: jane simp_thms)
qed

text \<open>
  A birth date that has no text makes the template of the grid throw, and the rejection
  handler of the patient request shows that the details could not be loaded.
\<close>

lemma birth_date_without_text:
  "patient_settled toUpperCase
     (Inr (Obj [(lit ''name'', Arr [name_jane]),
                (lit ''birthDate'', Obj [(lit ''toString'', Num (lit ''1''))])])) w =
   Normal ((console_error ''Error loading patient:''
              (type_error (lit ''Cannot convert object to primitive value'')) w)
     \<lparr>patient_info := Paragraph (lit ''error'') (lit ''Could not load patient details.'')\<rparr>)"
proof -
  have "formatHumanName name_jane = Inr (lit ''Jane Q Doe'')"
    by (simp add: formatHumanName_def name_jane_def call_join_def array_join_def trim_def
        is_white_space_def lit_def)
  moreover have "lit ''unknown'' \<noteq> []"
    by (simp add: lit_def)
  ultimately have "patient_texts toUpperCase
      (Obj [(lit ''name'', Arr [name_jane]),
            (lit ''birthDate'', Obj [(lit ''toString'', Num (lit ''1''))])]) =
      Inl (type_error (lit ''Cannot convert object to primitive value''))"
    by (simp add: patient_texts_def capitalize_def lit_def)
  then show ?thesis
    by (simp add: patient_settled_def then_catch_def loadPatient_then_def loadPatient_catch_def)
qed

end
